theory Spec2Isabelle
  imports Main "HOL-Library.Sublist"
begin

section \<open>JavaScript strings\<close>

text \<open>
  A JavaScript string is a sequence of UTF-16 code units. The model uses \<open>string\<close>, whose
  characters have 256 values, and reads a character as the code unit with the same number
  (U+0000 to U+00FF, Latin-1). On this range the library functions below are exact;
  strings with code units above U+00FF are outside the model.
\<close>

text \<open>
  White space and line terminators of ECMAScript below U+0100: tab, line feed, vertical
  tab, form feed, carriage return, space and no-break space. \<open>String.prototype.trim\<close>
  and the class \<open>\s\<close> of a regular expression use the same set.
\<close>

definition is_space :: "char \<Rightarrow> bool" where
  "is_space c = (of_char c \<in> {9, 10, 11, 12, 13, 32, 160 :: nat})"

definition trim :: "string \<Rightarrow> string" where
  "trim s = rev (dropWhile is_space (rev (dropWhile is_space s)))"

text \<open>
  \<open>String.prototype.toLowerCase\<close>: below U+0100 the letters with a lower-case mapping
  are A to Z and U+00C0 to U+00DE without the multiplication sign U+00D7; each maps to the
  code unit 32 above it.
\<close>

definition lower_char :: "char \<Rightarrow> char" where
  "lower_char c =
     (let n = of_char c :: nat
      in if (65 \<le> n \<and> n \<le> 90) \<or> (192 \<le> n \<and> n \<le> 222 \<and> n \<noteq> 215)
         then char_of (n + 32) else c)"

definition toLowerCase :: "string \<Rightarrow> string" where
  "toLowerCase s = map lower_char s"

text \<open>\<open>s.includes(sub)\<close>: \<open>sub\<close> occurs in \<open>s\<close> as a contiguous run.\<close>

fun includes_str :: "string \<Rightarrow> string \<Rightarrow> bool" where
  "includes_str [] sub = (sub = [])"
| "includes_str (c # cs) sub = (prefix sub (c # cs) \<or> includes_str cs sub)"

text \<open>A string in a condition is true when it is not empty.\<close>

definition truthy :: "string \<Rightarrow> bool" where
  "truthy s = (s \<noteq> [])"

section \<open>Thrown values, effects and the world outside a screen\<close>

text \<open>
  A thrown value is an \<open>Error\<close> object; its \<open>message\<close> property may be absent.
\<close>

datatype js_error = Error (message: "string option")

text \<open>
  What a handler does besides changing its component state, in the order it does it:
  console output, alerts (title, message and the labels of the buttons the call gives;
  an alert without a button list shows the platform's single default button),
  navigation, focus, the calls into the database module and into \<open>AsyncStorage\<close>,
  timers, and a rejected promise nobody handles.
\<close>

datatype effect =
    ConsoleLog string
  | ConsoleError string
  | Alert string string "string list"
  | RouterReplace string
  | FocusEmail
  | InitDatabase
  | SetupSyncListener
  | CheckAndSyncData
  | CreateUser string string string
  | GetItem string
  | SetItem string string
  | RemoveItem string
  | SetInterval nat nat
  | ClearInterval nat
  | UnhandledRejection

text \<open>A row of the Local Store's user table.\<close>

record user_row =
  row_id :: nat
  row_name :: string
  row_email :: string
  row_password :: string

text \<open>
  The world a screen runs in: the key-value storage (\<open>AsyncStorage\<close>), the Local Store,
  the effects so far, and the running interval timers (identifier and period in
  milliseconds) with the next identifier \<open>setInterval\<close> hands out.
\<close>

record world =
  storage :: "string \<rightharpoonup> string"
  local_store :: "user_row list"
  effects :: "effect list"
  intervals :: "(nat \<times> nat) list"
  next_interval :: nat

definition emit :: "effect \<Rightarrow> world \<Rightarrow> world" where
  "emit e w = w\<lparr>effects := effects w @ [e]\<rparr>"

text \<open>
  \<open>AsyncStorage\<close> is a library: a call completes or rejects, which the model takes as
  a flag. A call that rejects leaves the stored values as they were.
\<close>

definition getItem :: "bool \<Rightarrow> string \<Rightarrow> world \<Rightarrow> (js_error + string option) \<times> world" where
  "getItem ok k w =
     (if ok then (Inr (storage w k), emit (GetItem k) w)
      else (Inl (Error (Some ''AsyncStorage error'')), emit (GetItem k) w))"

definition setItem :: "bool \<Rightarrow> string \<Rightarrow> string \<Rightarrow> world \<Rightarrow> (js_error + unit) \<times> world" where
  "setItem ok k v w =
     (if ok then (Inr (), emit (SetItem k v) (w\<lparr>storage := (storage w)(k \<mapsto> v)\<rparr>))
      else (Inl (Error (Some ''AsyncStorage error'')), emit (SetItem k v) w))"

definition removeItem :: "bool \<Rightarrow> string \<Rightarrow> world \<Rightarrow> (js_error + unit) \<times> world" where
  "removeItem ok k w =
     (if ok then (Inr (), emit (RemoveItem k) (w\<lparr>storage := (storage w)(k := None)\<rparr>))
      else (Inl (Error (Some ''AsyncStorage error'')), emit (RemoveItem k) w))"

text \<open>\<open>setInterval\<close> and \<open>clearInterval\<close>.\<close>

definition setInterval :: "nat \<Rightarrow> world \<Rightarrow> nat \<times> world" where
  "setInterval ms w =
     (next_interval w,
      emit (SetInterval (next_interval w) ms)
        (w\<lparr>intervals := intervals w @ [(next_interval w, ms)],
           next_interval := Suc (next_interval w)\<rparr>))"

definition clearInterval :: "nat \<Rightarrow> world \<Rightarrow> world" where
  "clearInterval i w =
     emit (ClearInterval i) (w\<lparr>intervals := filter (\<lambda>t. fst t \<noteq> i) (intervals w)\<rparr>)"

section \<open>The signup screen (app/signup.tsx)\<close>

record signup_state =
  name :: string
  email :: string
  password :: string
  confirmPassword :: string
  signup_loading :: bool
  emailInput :: bool

text \<open>
  \<open>validateEmail\<close> tests \<open>/^[^\s@]+@[^\s@]+\.[^\s@]+$/\<close>: a non-empty run of characters
  that are neither white space nor \<open>@\<close>, one \<open>@\<close>, and after it such a run again that
  has a dot with at least one character on each side.
\<close>

definition email_char :: "char \<Rightarrow> bool" where
  "email_char c = (\<not> is_space c \<and> c \<noteq> CHR ''@'')"

definition validateEmail :: "string \<Rightarrow> bool" where
  "validateEmail s =
     (takeWhile email_char s \<noteq> [] \<and>
      (case dropWhile email_char s of
         [] \<Rightarrow> False
       | c # t \<Rightarrow> c = CHR ''@'' \<and> list_all email_char t \<and> CHR ''.'' \<in> set (butlast (tl t))))"

text \<open>
  What \<open>createUser\<close> resolves to: an object that may lack \<open>insertId\<close> (\<open>None\<close>), or one
  with a number; \<open>userId?.insertId\<close> is true for a number other than 0.
\<close>

type_synonym insert_result = "nat option"

definition has_insertId :: "insert_result \<Rightarrow> bool" where
  "has_insertId r = (case r of None \<Rightarrow> False | Some i \<Rightarrow> i \<noteq> 0)"

text \<open>
  The database module is not part of the screens: \<open>createUser\<close> is a parameter, a
  function from its three arguments and the Local Store to the outcome and the new store.
\<close>

type_synonym create_user =
  "string \<Rightarrow> string \<Rightarrow> string \<Rightarrow> user_row list \<Rightarrow> (js_error + insert_result) \<times> user_row list"

text \<open>
  The \<open>catch\<close> block of \<open>handleSignup\<close>. Its message is
  \<open>error.message || 'An error occurred during signup. Please try again.'\<close>.
\<close>

definition errorMessage :: "js_error \<Rightarrow> string" where
  "errorMessage err =
     (case message err of
        Some m \<Rightarrow> if truthy m then m
                  else ''An error occurred during signup. Please try again.''
      | None \<Rightarrow> ''An error occurred during signup. Please try again.'')"

definition signup_catch :: "js_error \<Rightarrow> signup_state \<Rightarrow> world \<Rightarrow> signup_state \<times> world" where
  "signup_catch err st w =
     (let st1 = st\<lparr>signup_loading := False\<rparr>;
          w1 = emit (ConsoleError ''Signup error:'') w
      in if includes_str (errorMessage err) ''already exists''
         then (st1, emit (Alert ''Email Already Exists'' (errorMessage err)
                            [''Go to Login'', ''OK'']) w1)
         else (st1, emit (Alert ''Signup Failed'' (errorMessage err) []) w1))"

definition handleSignup :: "create_user \<Rightarrow> signup_state \<Rightarrow> world \<Rightarrow> signup_state \<times> world" where
  "handleSignup createUser st w =
     (if \<not> truthy (trim (name st)) \<or> \<not> truthy (trim (email st))
         \<or> \<not> truthy (password st) \<or> \<not> truthy (confirmPassword st)
      then (st, emit (Alert ''Error'' ''Please fill in all fields'' []) w)
      else if \<not> validateEmail (trim (email st))
      then (st, emit (Alert ''Error'' ''Please enter a valid email address'' []) w)
      else if password st \<noteq> confirmPassword st
      then (st, emit (Alert ''Error'' ''Passwords do not match'' []) w)
      else if length (password st) < 6
      then (st, emit (Alert ''Error'' ''Password must be at least 6 characters long'' []) w)
      else
        let st1 = st\<lparr>signup_loading := True\<rparr>;
            n = trim (name st); e = toLowerCase (trim (email st)); p = password st;
            w1 = emit (CreateUser n e p) w;
            (res, db) = createUser n e p (local_store w1);
            w2 = w1\<lparr>local_store := db\<rparr>
        in case res of
             Inl err \<Rightarrow> signup_catch err st1 w2
           | Inr userId \<Rightarrow>
               let st2 = st1\<lparr>signup_loading := False\<rparr>
               in if has_insertId userId
                  then (st2, emit (Alert ''Success'' ''Account created successfully!'' [''OK'']) w2)
                  else signup_catch (Error (Some ''Failed to create account. Please try again.''))
                         st2 w2)"


text \<open>The two buttons of the alert for an email that already exists.\<close>

definition setFocus_email :: "signup_state \<Rightarrow> world \<Rightarrow> world" where
  "setFocus_email st w = (if emailInput st then emit FocusEmail w else w)"

definition duplicate_GoToLogin :: "signup_state \<Rightarrow> world \<Rightarrow> signup_state \<times> world" where
  "duplicate_GoToLogin st w =
     (st\<lparr>email := [], password := [], confirmPassword := []\<rparr>,
      emit (RouterReplace ''/login'') w)"

definition duplicate_OK :: "signup_state \<Rightarrow> world \<Rightarrow> signup_state \<times> world" where
  "duplicate_OK st w =
     (let st1 = st\<lparr>email := []\<rparr> in (st1, setFocus_email st1 w))"

text \<open>
  The inputs that pass the four checks at the head of \<open>handleSignup\<close>.
\<close>

definition submission_valid :: "signup_state \<Rightarrow> bool" where
  "submission_valid st =
     (truthy (trim (name st)) \<and> truthy (trim (email st))
      \<and> truthy (password st) \<and> truthy (confirmPassword st)
      \<and> validateEmail (trim (email st))
      \<and> password st = confirmPassword st
      \<and> 6 \<le> length (password st))"

text \<open>
  Modelled from the spec: \<open>createUser\<close> of the database module, which is not among the
  screens. The spec gives its contract: \<open>createUser(name, email, password)\<close> yields an
  object with an \<open>insertId\<close>, an identifier that is unique and assigned at creation, and
  fails (throws) when the email already exists, with an error message that contains a
  detectable substring. The screen looks for \<open>already exists\<close>; the text around it is
  not given, so it is the pair of parameters \<open>pre\<close> and \<open>post\<close>.
\<close>

definition fresh_id :: "user_row list \<Rightarrow> nat" where
  "fresh_id db = Suc (fold max (map row_id db) 0)"

definition createUser :: "string \<Rightarrow> string \<Rightarrow> create_user" where
  "createUser pre post n e p db =
     (if e \<in> set (map row_email db)
      then (Inl (Error (Some (pre @ ''already exists'' @ post))), db)
      else (Inr (Some (fresh_id db)),
            db @ [\<lparr>row_id = fresh_id db, row_name = n, row_email = e, row_password = p\<rparr>]))"

text \<open>Concrete inputs: the signup of the spec's example in an empty world.\<close>

definition world0 :: world where
  "world0 = \<lparr>storage = Map.empty, local_store = [], effects = [], intervals = [],
             next_interval = 0\<rparr>"

definition asha_form :: signup_state where
  "asha_form = \<lparr>name = ''Asha Rao'', email = ''ASHA@x.com'', password = ''secret1'',
                confirmPassword = ''secret1'', signup_loading = False, emailInput = True\<rparr>"

text \<open>The world after that signup has been stored by the modelled \<open>createUser\<close>.\<close>

definition world_asha :: world where
  "world_asha =
     world0\<lparr>local_store := [\<lparr>row_id = 1, row_name = ''Asha Rao'', row_email = ''asha@x.com'',
                               row_password = ''secret1''\<rparr>]\<rparr>"

section \<open>JSON and the session snapshot\<close>

text \<open>
  The session snapshot is a JavaScript object read with \<open>JSON.parse\<close> and written with
  \<open>JSON.stringify\<close>. The interface \<open>UserData\<close> gives it the fields \<open>id\<close>, \<open>name\<close>,
  \<open>email\<close> and \<open>loginTime\<close>, all strings. The model covers objects whose properties are
  all strings: an object is the list of its properties in creation order, with distinct
  names. A property that is absent reads as \<open>undefined\<close>, here \<open>None\<close>. (Property names
  that are array indices, which JavaScript orders first, are outside the model.)
\<close>

type_synonym js_object = "(string \<times> string) list"

definition get_prop :: "js_object \<Rightarrow> string \<Rightarrow> string option" where
  "get_prop obj k = map_of obj k"

text \<open>
  Defining a property: an existing one keeps its place and takes the new value, a new
  one goes last. The object literal \<open>{...userData, name: v}\<close> copies the properties of
  \<open>userData\<close> in order and then defines \<open>name\<close>.
\<close>

fun set_prop :: "string \<Rightarrow> string \<Rightarrow> js_object \<Rightarrow> js_object" where
  "set_prop k v [] = [(k, v)]"
| "set_prop k v (p # ps) = (if fst p = k then (k, v) # ps else p # set_prop k v ps)"

text \<open>
  \<open>JSON.stringify\<close> quotes a string: the quote and the backslash get a backslash, the
  control characters below U+0020 become \<open>\b\<close>, \<open>\t\<close>, \<open>\n\<close>, \<open>\f\<close>, \<open>\r\<close> or
  \<open>\u00XX\<close> with lower-case hexadecimal digits, every other code unit stays.
\<close>

definition hex_digit :: "nat \<Rightarrow> char" where
  "hex_digit d = (if d < 10 then char_of (48 + d) else char_of (87 + d))"

definition quote_char :: "char \<Rightarrow> string" where
  "quote_char c =
     (let n = of_char c :: nat
      in if n = 8 then [CHR 0x5C, CHR ''b'']
         else if n = 9 then [CHR 0x5C, CHR ''t'']
         else if n = 10 then [CHR 0x5C, CHR ''n'']
         else if n = 12 then [CHR 0x5C, CHR ''f'']
         else if n = 13 then [CHR 0x5C, CHR ''r'']
         else if n = 34 then [CHR 0x5C, CHR 0x22]
         else if n = 92 then [CHR 0x5C, CHR 0x5C]
         else if n < 32
           then [CHR 0x5C, CHR ''u'', CHR ''0'', CHR ''0'', hex_digit (n div 16), hex_digit (n mod 16)]
         else [c])"

definition quote_json :: "string \<Rightarrow> string" where
  "quote_json s = CHR 0x22 # concat (map quote_char s) @ [CHR 0x22]"

definition member_json :: "string \<times> string \<Rightarrow> string" where
  "member_json kv = quote_json (fst kv) @ '':'' @ quote_json (snd kv)"

fun members_json :: "js_object \<Rightarrow> string" where
  "members_json [] = []"
| "members_json [kv] = member_json kv"
| "members_json (kv # kvs) = member_json kv @ '','' @ members_json kvs"

definition JSON_stringify :: "js_object \<Rightarrow> string" where
  "JSON_stringify obj = ''{'' @ members_json obj @ ''}''"

text \<open>
  \<open>JSON.parse\<close>, in two passes. The first cuts the text into tokens: the four
  punctuation marks of an object and the strings, with their escapes decoded; white
  space between tokens (space, tab, line feed, carriage return) is skipped. A control
  character inside a string, an unknown escape, an escape \<open>\uXXXX\<close> that is not four
  hexadecimal digits, an unfinished string and any other character between tokens make
  the text malformed. An escape \<open>\uXXXX\<close> above U+00FF is outside the model's strings
  and is refused too.
\<close>

datatype token = LBrace | RBrace | Colon | Comma | Str string

definition hex_value :: "char \<Rightarrow> nat option" where
  "hex_value c =
     (let n = of_char c :: nat
      in if 48 \<le> n \<and> n \<le> 57 then Some (n - 48)
         else if 97 \<le> n \<and> n \<le> 102 then Some (n - 87)
         else if 65 \<le> n \<and> n \<le> 70 then Some (n - 55)
         else None)"

definition unicode_escape :: "char \<Rightarrow> char \<Rightarrow> char \<Rightarrow> char \<Rightarrow> char option" where
  "unicode_escape a b c d =
     (case (hex_value a, hex_value b, hex_value c, hex_value d) of
        (Some x, Some y, Some z, Some u) \<Rightarrow>
          if x = 0 \<and> y = 0 then Some (char_of (16 * z + u)) else None
      | _ \<Rightarrow> None)"

definition simple_escape :: "char \<Rightarrow> char option" where
  "simple_escape e =
     (if e = CHR 0x22 then Some (CHR 0x22)
      else if e = CHR 0x5C then Some (CHR 0x5C)
      else if e = CHR ''/'' then Some (CHR ''/'')
      else if e = CHR ''b'' then Some (char_of (8 :: nat))
      else if e = CHR ''f'' then Some (char_of (12 :: nat))
      else if e = CHR ''n'' then Some (char_of (10 :: nat))
      else if e = CHR ''r'' then Some (char_of (13 :: nat))
      else if e = CHR ''t'' then Some (char_of (9 :: nat))
      else None)"

definition json_space :: "char \<Rightarrow> bool" where
  "json_space c = (of_char c \<in> {9, 10, 13, 32 :: nat})"

fun lex :: "string \<Rightarrow> token list option"
  and lex_string :: "string \<Rightarrow> string \<Rightarrow> token list option" where
  "lex [] = Some []"
| "lex (c # cs) =
     (if json_space c then lex cs
      else if c = CHR ''{'' then map_option ((#) LBrace) (lex cs)
      else if c = CHR ''}'' then map_option ((#) RBrace) (lex cs)
      else if c = CHR '':'' then map_option ((#) Colon) (lex cs)
      else if c = CHR '','' then map_option ((#) Comma) (lex cs)
      else if c = CHR 0x22 then lex_string [] cs
      else None)"
| "lex_string acc [] = None"
| "lex_string acc (c # cs) =
     (if c = CHR 0x22 then map_option ((#) (Str (rev acc))) (lex cs)
      else if c = CHR 0x5C then
        (case cs of
           [] \<Rightarrow> None
         | e # cs1 \<Rightarrow>
             if e = CHR ''u'' then
               (case cs1 of
                  a # b # c # d # cs2 \<Rightarrow>
                    (case unicode_escape a b c d of
                       None \<Rightarrow> None
                     | Some x \<Rightarrow> lex_string (x # acc) cs2)
                | _ \<Rightarrow> None)
             else
               (case simple_escape e of
                  None \<Rightarrow> None
                | Some x \<Rightarrow> lex_string (x # acc) cs1))
      else if (of_char c :: nat) < 32 then None
      else lex_string (c # acc) cs)"

text \<open>
  The second pass reads the members of an object whose values are strings. A trailing
  comma and a missing comma are malformed.
\<close>

fun parse_members :: "token list \<Rightarrow> (string \<times> string) list option" where
  "parse_members [Str k, Colon, Str v, RBrace] = Some [(k, v)]"
| "parse_members (Str k # Colon # Str v # Comma # ts) =
     map_option ((#) (k, v)) (parse_members ts)"
| "parse_members ts = None"

definition parse_object :: "token list \<Rightarrow> (string \<times> string) list option" where
  "parse_object ts =
     (case ts of
        [LBrace, RBrace] \<Rightarrow> Some []
      | LBrace # ms \<Rightarrow> parse_members ms
      | _ \<Rightarrow> None)"

text \<open>
  The object gets its properties in the order of the text; a name that comes again
  replaces the value of the first.
\<close>

definition build_object :: "(string \<times> string) list \<Rightarrow> js_object" where
  "build_object ms = foldl (\<lambda>obj kv. set_prop (fst kv) (snd kv) obj) [] ms"

text \<open>
  \<open>JSON.parse\<close> on the texts of objects with string members; it throws a
  \<open>SyntaxError\<close> on a malformed text. Well-formed texts of other values (numbers,
  nested objects, arrays, literals) are outside the model, which refuses them as well.
\<close>

definition JSON_parse :: "string \<Rightarrow> js_error + js_object" where
  "JSON_parse text =
     (case lex text of
        None \<Rightarrow> Inl (Error (Some ''SyntaxError''))
      | Some ts \<Rightarrow>
          (case parse_object ts of
             None \<Rightarrow> Inl (Error (Some ''SyntaxError''))
           | Some ms \<Rightarrow> Inr (build_object ms)))"

text \<open>A session snapshot as the login screen stores it, and its text.\<close>

definition asha_session :: js_object where
  "asha_session = [(''id'', ''1''), (''name'', ''Asha Rao''), (''email'', ''asha@x.com''),
                   (''loginTime'', ''2024-01-01T00:00:00.000Z'')]"

text \<open>The tokens of the text \<open>JSON.stringify\<close> writes between the braces.\<close>

fun member_tokens :: "js_object \<Rightarrow> token list" where
  "member_tokens [] = []"
| "member_tokens [kv] = [Str (fst kv), Colon, Str (snd kv)]"
| "member_tokens (kv # kvs) = Str (fst kv) # Colon # Str (snd kv) # Comma # member_tokens kvs"

section \<open>The profile screen (app/profile.tsx)\<close>

text \<open>
  \<open>editedName\<close> is set from \<open>user.name\<close>, which is \<open>undefined\<close> (\<open>None\<close>) when the
  stored object has no such property.
\<close>

record profile_state =
  userData :: "js_object option"
  profile_loading :: bool
  isEditing :: bool
  editedName :: "string option"
  saving :: bool




text \<open>
  \<open>handleSaveProfile\<close>. \<open>editedName.trim()\<close> runs before the \<open>try\<close>: on
  \<open>undefined\<close> it throws and the handler's promise rejects. The non-null assertion
  \<open>userData!\<close> is erased at run time; spreading \<open>null\<close> copies nothing.
\<close>

definition handleSaveProfile :: "bool \<Rightarrow> profile_state \<Rightarrow> world \<Rightarrow> profile_state \<times> world" where
  "handleSaveProfile setItem_ok st w =
     (case editedName st of
        None \<Rightarrow> (st, emit UnhandledRejection w)
      | Some n \<Rightarrow>
          if \<not> truthy (trim n) then (st, emit (Alert ''Error'' ''Name cannot be empty'' []) w)
          else
            let st1 = st\<lparr>saving := True\<rparr>;
                updatedUser =
                  set_prop ''name'' (trim n) (case userData st of None \<Rightarrow> [] | Some u \<Rightarrow> u);
                (st2, w2) =
                  (case setItem setItem_ok ''userSession'' (JSON_stringify updatedUser) w of
                     (Inr u, w1) \<Rightarrow>
                       (st1\<lparr>userData := Some updatedUser, isEditing := False\<rparr>,
                        emit (Alert ''Success'' ''Profile updated successfully!'' []) w1)
                   | (Inl err, w1) \<Rightarrow>
                       (st1, emit (Alert ''Error'' ''Failed to update profile. Please try again.'' [])
                               (emit (ConsoleError ''Error saving profile:'') w1)))
            in (st2\<lparr>saving := False\<rparr>, w2))"

text \<open>
  \<open>handleLogout\<close> shows a dialog with two buttons; \<open>Cancel\<close> has no handler, \<open>Logout\<close>
  removes the session key.
\<close>

datatype logout_button = Cancel | Logout

definition handleLogout :: "world \<Rightarrow> world" where
  "handleLogout w = emit (Alert ''Logout'' ''Are you sure you want to logout?'' [''Cancel'', ''Logout'']) w"

definition logout_onPress :: "bool \<Rightarrow> world \<Rightarrow> world" where
  "logout_onPress removeItem_ok w =
     (case removeItem removeItem_ok ''userSession'' w of
        (Inr u, w1) \<Rightarrow> emit (RouterReplace ''/'') w1
      | (Inl err, w1) \<Rightarrow>
          emit (Alert ''Error'' ''Failed to logout. Please try again.'' [])
            (emit (ConsoleError ''Logout error:'') w1))"

definition logout_dialog :: "logout_button \<Rightarrow> bool \<Rightarrow> world \<Rightarrow> world" where
  "logout_dialog b removeItem_ok w =
     (case b of Cancel \<Rightarrow> handleLogout w
              | Logout \<Rightarrow> logout_onPress removeItem_ok (handleLogout w))"

section \<open>The home screen (app/index.tsx)\<close>

record home_state =
  isLoggedIn :: "bool option"
  userName :: "string option"
  home_loading :: bool

definition home_init :: home_state where
  "home_init = \<lparr>isLoggedIn = None, userName = Some [], home_loading = True\<rparr>"

text \<open>
  The calls \<open>initApp\<close> makes outside the screen complete or throw; the record says
  which, for one run.
\<close>

record init_outcomes =
  initDatabase_ok :: bool
  getItem_ok :: bool
  setupSyncListener_ok :: bool
  checkAndSyncData_ok :: bool

text \<open>The function \<open>initApp\<close> returns: it clears the interval it was made for.\<close>

datatype cleanup = ClearSyncInterval nat

definition run_cleanup :: "cleanup \<Rightarrow> world \<Rightarrow> world" where
  "run_cleanup c w = (case c of ClearSyncInterval i \<Rightarrow> clearInterval i w)"

definition init_catch :: "home_state \<Rightarrow> world \<Rightarrow> cleanup option \<times> home_state \<times> world" where
  "init_catch st w =
     (None, st,
      emit (Alert ''Error'' ''Failed to initialize the application. Please restart the app.'' [])
        (emit (ConsoleError ''Error initializing app:'') w))"

text \<open>
  The stored session does not make \<open>initApp\<close> throw: the key is absent, or holds the
  empty string, or holds a text that \<open>JSON.parse\<close> accepts.
\<close>

definition session_readable :: "world \<Rightarrow> bool" where
  "session_readable w =
     (case storage w ''userSession'' of
        None \<Rightarrow> True
      | Some text \<Rightarrow>
          if truthy text then (case JSON_parse text of Inl err \<Rightarrow> False | Inr user \<Rightarrow> True)
          else True)"

text \<open>The steps of \<open>initApp\<close> after the session has been read.\<close>

definition start_sync :: "init_outcomes \<Rightarrow> home_state \<Rightarrow> world \<Rightarrow> cleanup option \<times> home_state \<times> world" where
  "start_sync out st w =
     (let w1 = emit SetupSyncListener w
      in if \<not> setupSyncListener_ok out then init_catch st w1
         else
           let w2 = emit CheckAndSyncData w1
           in if \<not> checkAndSyncData_ok out then init_catch st w2
              else
                let (syncInterval, w3) = setInterval (5 * 60 * 1000) w2
                in (Some (ClearSyncInterval syncInterval), st, w3))"

text \<open>
  \<open>initApp\<close>: the value is what its promise resolves to, the cleanup function or
  \<open>undefined\<close>; the \<open>finally\<close> block ends every path.
\<close>

definition initApp :: "init_outcomes \<Rightarrow> home_state \<Rightarrow> world \<Rightarrow> cleanup option \<times> home_state \<times> world" where
  "initApp out st w =
     (let (r, st1, w1) =
            (let w1 = emit InitDatabase w
             in if \<not> initDatabase_ok out then init_catch st w1
                else
                  let w2 = emit (ConsoleLog ''Database initialized successfully'') w1
                  in case getItem (getItem_ok out) ''userSession'' w2 of
                       (Inl err, w3) \<Rightarrow> init_catch st w3
                     | (Inr userSession, w3) \<Rightarrow>
                         let absent = start_sync out (st\<lparr>isLoggedIn := Some False\<rparr>) w3
                         in case userSession of
                              None \<Rightarrow> absent
                            | Some text \<Rightarrow>
                                if truthy text then
                                  (case JSON_parse text of
                                     Inl err \<Rightarrow> init_catch st w3
                                   | Inr user \<Rightarrow>
                                       start_sync out
                                         (st\<lparr>isLoggedIn := Some True,
                                             userName := get_prop user ''name''\<rparr>) w3)
                                else absent)
      in (r, st1\<lparr>home_loading := False\<rparr>, w1))"

text \<open>
  The effect of the screen defines \<open>initApp\<close>, calls it and returns nothing: the
  promise, and the cleanup function in it, are dropped. React keeps what an effect
  returns and calls it when the component unmounts.
\<close>

definition home_effect :: "init_outcomes \<Rightarrow> home_state \<Rightarrow> world \<Rightarrow> cleanup option \<times> home_state \<times> world" where
  "home_effect out st w = (let (promise, st1, w1) = initApp out st w in (None, st1, w1))"

record home_component =
  state :: home_state
  effect_cleanup :: "cleanup option"
  mounted :: bool

definition mount :: "init_outcomes \<Rightarrow> world \<Rightarrow> home_component \<times> world" where
  "mount out w =
     (let (c, st, w1) = home_effect out home_init w
      in (\<lparr>state = st, effect_cleanup = c, mounted = True\<rparr>, w1))"

definition unmount :: "home_component \<Rightarrow> world \<Rightarrow> home_component \<times> world" where
  "unmount hc w =
     (hc\<lparr>mounted := False\<rparr>,
      case effect_cleanup hc of None \<Rightarrow> w | Some c \<Rightarrow> run_cleanup c w)"

text \<open>
  The callback of the interval calls \<open>checkAndSyncData()\<close> and drops its promise. An
  interval fires only while it is among the running ones.
\<close>

definition interval_callback :: "bool \<Rightarrow> world \<Rightarrow> world" where
  "interval_callback sync_ok w =
     (if sync_ok then emit CheckAndSyncData w
      else emit UnhandledRejection (emit CheckAndSyncData w))"

definition interval_fires :: "nat \<Rightarrow> bool \<Rightarrow> world \<Rightarrow> world" where
  "interval_fires i sync_ok w =
     (if i \<in> set (map fst (intervals w)) then interval_callback sync_ok w else w)"


text \<open>The logout dialog of the home screen.\<close>

definition home_handleLogout :: "world \<Rightarrow> world" where
  "home_handleLogout w =
     emit (Alert ''Logout'' ''Are you sure you want to logout?'' [''Cancel'', ''Logout'']) w"

definition home_logout_onPress :: "bool \<Rightarrow> home_state \<Rightarrow> world \<Rightarrow> home_state \<times> world" where
  "home_logout_onPress removeItem_ok st w =
     (case removeItem removeItem_ok ''userSession'' w of
        (Inr u, w1) \<Rightarrow>
          (st\<lparr>isLoggedIn := Some False, userName := Some []\<rparr>,
           emit (Alert ''Success'' ''You have been logged out successfully.'' []) w1)
      | (Inl err, w1) \<Rightarrow>
          (st, emit (Alert ''Error'' ''Failed to logout. Please try again.'' [])
                 (emit (ConsoleError ''Logout error:'') w1)))"

definition home_logout_dialog :: "logout_button \<Rightarrow> bool \<Rightarrow> home_state \<Rightarrow> world \<Rightarrow> home_state \<times> world" where
  "home_logout_dialog b removeItem_ok st w =
     (case b of Cancel \<Rightarrow> (st, home_handleLogout w)
              | Logout \<Rightarrow> home_logout_onPress removeItem_ok st (home_handleLogout w))"

text \<open>Concrete inputs: a world with a stored session, and the outcomes of a startup.\<close>

definition world_session :: world where
  "world_session = world_asha\<lparr>storage := [''userSession'' \<mapsto> JSON_stringify asha_session]\<rparr>"

definition all_ok :: init_outcomes where
  "all_ok = \<lparr>initDatabase_ok = True, getItem_ok = True, setupSyncListener_ok = True,
             checkAndSyncData_ok = True\<rparr>"


text \<open>The profile screen after loading that session, with an edited name typed in.\<close>

definition asha_profile :: profile_state where
  "asha_profile = \<lparr>userData = Some asha_session, profile_loading = False, isEditing = True,
                   editedName = Some ''  Asha R.  '', saving = False\<rparr>"

text \<open>The same world with a second storage key.\<close>

definition world_two_keys :: world where
  "world_two_keys = world_session\<lparr>storage := (storage world_session)(''theme'' \<mapsto> ''dark'')\<rparr>"

section \<open>Properties\<close>

subsection \<open>Strings\<close>

lemma includes_str_iff: "includes_str s sub \<longleftrightarrow> (\<exists>p q. s = p @ sub @ q)"
  by (induction s) (auto simp: sublist_Cons_right sublist_def prefix_def Cons_eq_append_conv)

lemma includes_str_mid: "includes_str (p @ sub @ q) sub"
  unfolding includes_str_iff by blast

text \<open>
  The regular expression of \<open>validateEmail\<close> matches exactly the strings
  \<open>a@b.c\<close> with \<open>a\<close>, \<open>b\<close>, \<open>c\<close> non-empty and free of white space and \<open>@\<close>; and
  \<open>trim\<close> removes a run of white space at each end and leaves a string that neither
  starts nor ends with white space.
\<close>

lemma email_char_at: "\<not> email_char (CHR ''@'')"
  by (simp add: email_char_def)

lemma email_char_dot: "email_char (CHR ''.'')"
  by (simp add: email_char_def is_space_def)

lemma validateEmail_matches:
  assumes "a \<noteq> []" "b \<noteq> []" "c \<noteq> []"
    and "list_all email_char a" "list_all email_char b" "list_all email_char c"
  shows "validateEmail (a @ ''@'' @ b @ ''.'' @ c)"
proof -
  have tw: "takeWhile email_char (a @ CHR ''@'' # b @ CHR ''.'' # c) = a"
    using assms(4) email_char_at by (simp add: takeWhile_append2 list_all_iff)
  have dw: "dropWhile email_char (a @ CHR ''@'' # b @ CHR ''.'' # c) = CHR ''@'' # b @ CHR ''.'' # c"
    using assms(4) email_char_at by (simp add: dropWhile_append2 list_all_iff)
  obtain h p where b: "b = h # p" using assms(2) by (cases b) auto
  have "butlast (tl (b @ CHR ''.'' # c)) = p @ CHR ''.'' # butlast c"
    using assms(3) by (simp add: b butlast_append)
  then have dot: "CHR ''.'' \<in> set (butlast (tl (b @ CHR ''.'' # c)))" by simp
  have all: "list_all email_char (b @ CHR ''.'' # c)"
    using assms(5,6) email_char_dot by simp
  show ?thesis
    using assms(1) dot all by (simp add: validateEmail_def tw dw)
qed

lemma validateEmail_shape:
  assumes "validateEmail s"
  shows "\<exists>a b c. s = a @ ''@'' @ b @ ''.'' @ c \<and> a \<noteq> [] \<and> b \<noteq> [] \<and> c \<noteq> []
           \<and> list_all email_char a \<and> list_all email_char b \<and> list_all email_char c"
proof -
  let ?a = "takeWhile email_char s"
  from assms obtain t where
    a: "?a \<noteq> []" and d: "dropWhile email_char s = CHR ''@'' # t"
    and all: "list_all email_char t" and dot: "CHR ''.'' \<in> set (butlast (tl t))"
    by (auto simp: validateEmail_def split: list.splits)
  have s: "s = ?a @ CHR ''@'' # t" using d takeWhile_dropWhile_id[of email_char s] by simp
  from dot obtain p q where pq: "butlast (tl t) = p @ CHR ''.'' # q"
    by (auto simp: in_set_conv_decomp)
  then have ne: "tl t \<noteq> []" by auto
  then have tne: "t \<noteq> []" by auto
  have tl: "tl t = p @ CHR ''.'' # q @ [last (tl t)]"
    using append_butlast_last_id[OF ne] pq by simp
  have t: "t = (hd t # p) @ CHR ''.'' # (q @ [last (tl t)])"
    using tne tl by (cases t) simp_all
  have parts: "list_all email_char (hd t # p)" "list_all email_char (q @ [last (tl t)])"
    using all by (subst (asm) t, simp)+
  have "list_all email_char ?a" by (simp add: list_all_iff) (meson set_takeWhileD)
  moreover have "s = ?a @ ''@'' @ (hd t # p) @ ''.'' @ (q @ [last (tl t)])"
    using s t by simp
  ultimately show ?thesis using a parts by blast
qed

lemma validateEmail_iff:
  "validateEmail s \<longleftrightarrow>
     (\<exists>a b c. s = a @ ''@'' @ b @ ''.'' @ c \<and> a \<noteq> [] \<and> b \<noteq> [] \<and> c \<noteq> []
        \<and> list_all email_char a \<and> list_all email_char b \<and> list_all email_char c)"
  using validateEmail_matches validateEmail_shape by blast

lemma trim_decompose:
  "\<exists>l r. s = l @ trim s @ r \<and> list_all is_space l \<and> list_all is_space r"
proof -
  let ?l = "takeWhile is_space s"
  let ?m = "dropWhile is_space s"
  let ?r = "rev (takeWhile is_space (rev ?m))"
  have m: "?m = trim s @ ?r"
  proof -
    have "rev (rev ?m) = rev (takeWhile is_space (rev ?m) @ dropWhile is_space (rev ?m))"
      by (simp only: takeWhile_dropWhile_id)
    also have "\<dots> = rev (dropWhile is_space (rev ?m)) @ rev (takeWhile is_space (rev ?m))"
      by (rule rev_append)
    finally show ?thesis by (simp add: trim_def)
  qed
  have "s = ?l @ ?m" by simp
  then have "s = ?l @ trim s @ ?r" using m by simp
  moreover have "list_all is_space ?l" by (simp add: list_all_iff) (meson set_takeWhileD)
  moreover have "list_all is_space ?r" by (simp add: list_all_iff) (meson set_takeWhileD)
  ultimately show ?thesis by blast
qed

lemma trim_ends:
  assumes "trim s \<noteq> []"
  shows "\<not> is_space (hd (trim s)) \<and> \<not> is_space (last (trim s))"
proof -
  let ?m = "dropWhile is_space s"
  let ?d = "dropWhile is_space (rev ?m)"
  have d: "?d \<noteq> []" using assms by (simp add: trim_def)
  then have h: "\<not> is_space (hd ?d)" by (rule hd_dropWhile)
  have l: "last (trim s) = hd ?d" using d by (simp add: trim_def last_rev)
  have mne: "?m \<noteq> []"
  proof
    assume "?m = []"
    then have "?d = []" by (simp only: rev.simps dropWhile.simps)
    with d show False by (simp only:)
  qed
  then have hm: "\<not> is_space (hd ?m)" by (rule hd_dropWhile)
  obtain x xs where m: "?m = x # xs" using mne by (cases ?m) auto
  have x: "\<not> is_space x" using hm m by simp
  have "rev ?m = rev xs @ [x]" using m by simp
  then have "?d = dropWhile is_space (rev xs) @ [x]"
    using x by (simp add: dropWhile_append3)
  then have "trim s = x # rev (dropWhile is_space (rev xs))"
    unfolding trim_def by simp
  then have "hd (trim s) = x" by simp
  with x h l show ?thesis by simp
qed

lemma handleSignup_valid:
  assumes "submission_valid st"
  shows "handleSignup cu st w =
     (let n = trim (name st); e = toLowerCase (trim (email st)); p = password st;
          w1 = emit (CreateUser n e p) w
      in case cu n e p (local_store w1) of
           (Inl err, db) \<Rightarrow> signup_catch err (st\<lparr>signup_loading := True\<rparr>) (w1\<lparr>local_store := db\<rparr>)
         | (Inr r, db) \<Rightarrow>
             if has_insertId r
             then (st\<lparr>signup_loading := False\<rparr>,
                   emit (Alert ''Success'' ''Account created successfully!'' [''OK''])
                     (w1\<lparr>local_store := db\<rparr>))
             else signup_catch (Error (Some ''Failed to create account. Please try again.''))
                    (st\<lparr>signup_loading := False\<rparr>) (w1\<lparr>local_store := db\<rparr>))"
  using assms
  by (auto simp add: handleSignup_def submission_valid_def Let_def split: prod.splits sum.splits)

lemma local_store_emit [simp]: "local_store (emit e w) = local_store w"
  by (simp add: emit_def)

lemma effects_emit [simp]: "effects (emit e w) = effects w @ [e]"
  by (simp add: emit_def)

lemma storage_emit [simp]: "storage (emit e w) = storage w"
  by (simp add: emit_def)

lemma emit_local_store_same [simp]: "(emit e w)\<lparr>local_store := local_store w\<rparr> = emit e w"
  by (simp add: emit_def)

lemma char_is_quote: "(c = CHR 0x22) \<longleftrightarrow> (of_char c = (34::nat))"
  using of_char_eq_iff[of c "CHR 0x22", where ?'a = nat] by simp

lemma char_is_backslash: "(c = CHR 0x5C) \<longleftrightarrow> (of_char c = (92::nat))"
  using of_char_eq_iff[of c "CHR 0x5C", where ?'a = nat] by simp

lemma hex_value_hex_digit: "d < 16 \<Longrightarrow> hex_value (hex_digit d) = Some d"
  by (auto simp: hex_value_def hex_digit_def Let_def)

lemma unicode_escape_hex:
  assumes "n < 32"
  shows "unicode_escape (CHR ''0'') (CHR ''0'') (hex_digit (n div 16)) (hex_digit (n mod 16))
         = Some (char_of n)"
proof -
  have z: "hex_value (CHR ''0'') = Some 0" by (simp add: hex_value_def)
  have a: "hex_value (hex_digit (n div 16)) = Some (n div 16)"
    using assms by (intro hex_value_hex_digit) simp
  have b: "hex_value (hex_digit (n mod 16)) = Some (n mod 16)"
    by (intro hex_value_hex_digit) simp
  show ?thesis by (simp add: unicode_escape_def z a b)
qed

lemma lex_string_quote_char:
  "lex_string acc (quote_char c @ rest) = lex_string (c # acc) rest"
proof -
  let ?n = "of_char c :: nat"
  have c: "c = char_of ?n" by simp
  consider (b) "?n = 8" | (t) "?n = 9" | (n) "?n = 10" | (f) "?n = 12" | (r) "?n = 13"
    | (q) "?n = 34" | (s) "?n = 92"
    | (u) "?n < 32" "?n \<notin> {8, 9, 10, 12, 13}"
    | (lit) "32 \<le> ?n" "?n \<noteq> 34" "?n \<noteq> 92"
    by fastforce
  then show ?thesis
  proof cases
    case b
    then have "c = char_of (8::nat)" using c by simp
    then show ?thesis by (simp add: quote_char_def simple_escape_def)
  next
    case t
    then have "c = char_of (9::nat)" using c by simp
    then show ?thesis by (simp add: quote_char_def simple_escape_def)
  next
    case n
    then have "c = char_of (10::nat)" using c by simp
    then show ?thesis by (simp add: quote_char_def simple_escape_def)
  next
    case f
    then have "c = char_of (12::nat)" using c by simp
    then show ?thesis by (simp add: quote_char_def simple_escape_def)
  next
    case r
    then have "c = char_of (13::nat)" using c by simp
    then show ?thesis by (simp add: quote_char_def simple_escape_def)
  next
    case q
    then have "c = CHR 0x22" by (simp add: char_is_quote)
    then show ?thesis by (simp add: quote_char_def simple_escape_def)
  next
    case s
    then have "c = CHR 0x5C" by (simp add: char_is_backslash)
    then show ?thesis by (simp add: quote_char_def simple_escape_def)
  next
    case u
    have q: "quote_char c = [CHR 0x5C, CHR ''u'', CHR ''0'', CHR ''0'',
                            hex_digit (?n div 16), hex_digit (?n mod 16)]"
      using u by (auto simp: quote_char_def Let_def)
    show ?thesis
      using unicode_escape_hex[OF u(1)] by (simp add: q)
  next
    case lit
    then have q: "quote_char c = [c]" by (auto simp: quote_char_def Let_def)
    have "c \<noteq> CHR 0x22" "c \<noteq> CHR 0x5C"
      using lit by (simp_all add: char_is_quote char_is_backslash)
    then show ?thesis using lit by (simp add: q)
  qed
qed

lemma lex_string_body:
  "lex_string acc (concat (map quote_char s) @ CHR 0x22 # rest)
   = map_option ((#) (Str (rev acc @ s))) (lex rest)"
proof (induction s arbitrary: acc)
  case Nil
  show ?case by simp
next
  case (Cons c s)
  have "lex_string acc (concat (map quote_char (c # s)) @ CHR 0x22 # rest)
        = lex_string acc (quote_char c @ (concat (map quote_char s) @ CHR 0x22 # rest))"
    by simp
  also have "\<dots> = lex_string (c # acc) (concat (map quote_char s) @ CHR 0x22 # rest)"
    by (rule lex_string_quote_char)
  also have "\<dots> = map_option ((#) (Str (rev (c # acc) @ s))) (lex rest)"
    by (rule Cons.IH)
  finally show ?case by simp
qed

lemma lex_quote_json:
  "lex (quote_json s @ rest) = map_option ((#) (Str s)) (lex rest)"
proof -
  have "\<not> json_space (CHR 0x22)" by (simp add: json_space_def)
  then show ?thesis
    using lex_string_body[of "[]" s rest] by (simp add: quote_json_def)
qed

lemma lex_member_json:
  "lex (member_json kv @ rest)
   = map_option (\<lambda>ts. Str (fst kv) # Colon # Str (snd kv) # ts) (lex rest)"
proof -
  have sp: "\<not> json_space (CHR '':'')" by (simp add: json_space_def)
  have "lex (member_json kv @ rest)
        = map_option ((#) (Str (fst kv))) (lex (CHR '':'' # quote_json (snd kv) @ rest))"
    using lex_quote_json[of "fst kv" "CHR '':'' # quote_json (snd kv) @ rest"]
    by (simp add: member_json_def)
  also have "lex (CHR '':'' # quote_json (snd kv) @ rest)
        = map_option ((#) Colon) (lex (quote_json (snd kv) @ rest))"
    using sp by simp
  also have "lex (quote_json (snd kv) @ rest) = map_option ((#) (Str (snd kv))) (lex rest)"
    by (rule lex_quote_json)
  finally show ?thesis by (simp add: option.map_comp comp_def)
qed

lemma lex_members_json:
  "lex (members_json obj @ ''}'') = Some (member_tokens obj @ [RBrace])"
proof (induction obj rule: members_json.induct)
  case 1
  show ?case by (simp add: json_space_def)
next
  case (2 kv)
  show ?case by (simp add: lex_member_json json_space_def)
next
  case (3 kv kv' kvs)
  have "lex (members_json (kv # kv' # kvs) @ ''}'')
        = lex (member_json kv @ (CHR '','' # members_json (kv' # kvs) @ ''}''))"
    by simp
  also have "\<dots> = map_option (\<lambda>ts. Str (fst kv) # Colon # Str (snd kv) # ts)
                      (lex (CHR '','' # members_json (kv' # kvs) @ ''}''))"
    by (rule lex_member_json)
  also have "lex (CHR '','' # members_json (kv' # kvs) @ ''}'')
             = map_option ((#) Comma) (lex (members_json (kv' # kvs) @ ''}''))"
    by (simp add: json_space_def)
  finally show ?case using 3 by simp
qed

lemma parse_members_tokens:
  "obj \<noteq> [] \<Longrightarrow> parse_members (member_tokens obj @ [RBrace]) = Some obj"
  by (induction obj rule: member_tokens.induct) simp_all

lemma parse_object_tokens:
  "parse_object (LBrace # member_tokens obj @ [RBrace]) = Some obj"
proof (cases obj)
  case Nil
  then show ?thesis by (simp add: parse_object_def)
next
  case (Cons kv kvs)
  then have ne: "obj \<noteq> []" by simp
  have "member_tokens obj @ [RBrace] \<noteq> [RBrace]"
    using Cons by (cases kvs) simp_all
  then have "parse_object (LBrace # member_tokens obj @ [RBrace])
             = parse_members (member_tokens obj @ [RBrace])"
    by (auto simp: parse_object_def split: list.splits token.splits)
  then show ?thesis using parse_members_tokens[OF ne] by simp
qed

lemma lex_stringify:
  "lex (JSON_stringify obj) = Some (LBrace # member_tokens obj @ [RBrace])"
  using lex_members_json[of obj] by (simp add: JSON_stringify_def json_space_def)




lemma set_prop_new:
  "k \<notin> set (map fst obj) \<Longrightarrow> set_prop k v obj = obj @ [(k, v)]"
  by (induction obj) auto

lemma foldl_set_prop_distinct:
  "distinct (map fst (acc @ ms)) \<Longrightarrow>
   foldl (\<lambda>obj kv. set_prop (fst kv) (snd kv) obj) acc ms = acc @ ms"
proof (induction ms arbitrary: acc)
  case Nil
  show ?case by simp
next
  case (Cons m ms)
  have new: "fst m \<notin> set (map fst acc)" using Cons.prems by auto
  have step: "set_prop (fst m) (snd m) acc = acc @ [m]"
    using set_prop_new[OF new, of "snd m"] by simp
  have "distinct (map fst ((acc @ [m]) @ ms))" using Cons.prems by simp
  then have "foldl (\<lambda>obj kv. set_prop (fst kv) (snd kv) obj) (acc @ [m]) ms = (acc @ [m]) @ ms"
    by (rule Cons.IH)
  then show ?case by (simp add: step)
qed

lemma build_object_distinct_keys:
  "distinct (map fst obj) \<Longrightarrow> build_object obj = obj"
  using foldl_set_prop_distinct[of "[]" obj] by (simp add: build_object_def)




lemma JSON_parse_stringify:
  "distinct (map fst obj) \<Longrightarrow> JSON_parse (JSON_stringify obj) = Inr obj"
  by (simp add: JSON_parse_def lex_stringify parse_object_tokens build_object_distinct_keys)

subsection \<open>Signup\<close>

text \<open>
  Claim C4. A valid submission whose normalised email is already in the Local Store makes
  the modelled \<open>createUser\<close> fail with a message that contains \<open>already exists\<close>, and
  \<open>handleSignup\<close> then shows the alert with the buttons \<open>Go to Login\<close> and \<open>OK\<close>.
  Whatever \<open>createUser\<close> is, a failure shows that alert exactly when its message contains
  the substring and the plain \<open>Signup Failed\<close> alert otherwise; the two messages the
  screen makes up itself do not contain it; and \<open>Go to Login\<close> replaces the route by
  \<open>/login\<close>.
\<close>

theorem signup_duplicate_email:
  assumes valid: "submission_valid st"
    and n: "n = trim (name st)" and e: "e = toLowerCase (trim (email st))"
    and p: "p = password st"
  shows "(e \<in> set (map row_email (local_store w)) \<longrightarrow>
            (\<exists>m. createUser pre post n e p (local_store w) = (Inl (Error (Some m)), local_store w)
                 \<and> includes_str m ''already exists'')
            \<and> handleSignup (createUser pre post) st w =
                (st\<lparr>signup_loading := False\<rparr>,
                 emit (Alert ''Email Already Exists'' (pre @ ''already exists'' @ post)
                         [''Go to Login'', ''OK''])
                   (emit (ConsoleError ''Signup error:'') (emit (CreateUser n e p) w))))
       \<and> (\<forall>cu err db. cu n e p (local_store w) = (Inl err, db) \<longrightarrow>
            handleSignup cu st w =
              (st\<lparr>signup_loading := False\<rparr>,
               emit (if includes_str (errorMessage err) ''already exists''
                     then Alert ''Email Already Exists'' (errorMessage err) [''Go to Login'', ''OK'']
                     else Alert ''Signup Failed'' (errorMessage err) [])
                 (emit (ConsoleError ''Signup error:'')
                    ((emit (CreateUser n e p) w)\<lparr>local_store := db\<rparr>))))
       \<and> \<not> includes_str (errorMessage (Error None)) ''already exists''
       \<and> \<not> includes_str (errorMessage (Error (Some ''Failed to create account. Please try again.'')))
             ''already exists''
       \<and> effects (snd (duplicate_GoToLogin st w)) = effects w @ [RouterReplace ''/login'']"
proof -
  have dup: "includes_str (errorMessage (Error (Some (pre @ ''already exists'' @ post)))) ''already exists''"
    using includes_str_mid[of pre "''already exists''" post]
    by (simp add: errorMessage_def truthy_def)
  have msg: "errorMessage (Error (Some (pre @ ''already exists'' @ post))) = pre @ ''already exists'' @ post"
    by (simp add: errorMessage_def truthy_def)
  have a: "e \<in> set (map row_email (local_store w)) \<Longrightarrow>
            (\<exists>m. createUser pre post n e p (local_store w) = (Inl (Error (Some m)), local_store w)
                 \<and> includes_str m ''already exists'')"
    using includes_str_mid[of pre "''already exists''" post]
    by (simp add: createUser_def)
  have b: "handleSignup (createUser pre post) st w =
                (st\<lparr>signup_loading := False\<rparr>,
                 emit (Alert ''Email Already Exists'' (pre @ ''already exists'' @ post)
                         [''Go to Login'', ''OK''])
                   (emit (ConsoleError ''Signup error:'') (emit (CreateUser n e p) w)))"
    if "e \<in> set (map row_email (local_store w))"
    using that dup msg n e p
    by (simp add: handleSignup_valid[OF valid] createUser_def signup_catch_def Let_def)
  have c: "handleSignup cu st w =
              (st\<lparr>signup_loading := False\<rparr>,
               emit (if includes_str (errorMessage err) ''already exists''
                     then Alert ''Email Already Exists'' (errorMessage err) [''Go to Login'', ''OK'']
                     else Alert ''Signup Failed'' (errorMessage err) [])
                 (emit (ConsoleError ''Signup error:'')
                    ((emit (CreateUser n e p) w)\<lparr>local_store := db\<rparr>)))"
    if "cu n e p (local_store w) = (Inl err, db)" for cu err db
    using that n e p
    by (simp add: handleSignup_valid[OF valid] signup_catch_def Let_def)
  have d: "\<not> includes_str (errorMessage (Error None)) ''already exists''"
    by code_simp
  have d': "\<not> includes_str (errorMessage (Error (Some ''Failed to create account. Please try again.'')))
             ''already exists''"
    by code_simp
  have f: "effects (snd (duplicate_GoToLogin st w)) = effects w @ [RouterReplace ''/login'']"
    by (simp add: duplicate_GoToLogin_def)
  from a b c d d' f show ?thesis by blast
qed

text \<open>The spec's example, submitted again after it has been stored.\<close>

theorem signup_duplicate_email_witness:
  "submission_valid asha_form
   \<and> toLowerCase (trim (email asha_form)) = ''asha@x.com''
   \<and> toLowerCase (trim (email asha_form)) \<in> set (map row_email (local_store world_asha))
   \<and> handleSignup (createUser ''Email '' ''.'') asha_form world_asha =
       (asha_form\<lparr>signup_loading := False\<rparr>,
        emit (Alert ''Email Already Exists'' (''Email '' @ ''already exists'' @ ''.'')
                [''Go to Login'', ''OK''])
          (emit (ConsoleError ''Signup error:'')
             (emit (CreateUser (trim (name asha_form)) (toLowerCase (trim (email asha_form)))
                      (password asha_form)) world_asha)))"
proof -
  have v: "submission_valid asha_form" by code_simp
  have e: "toLowerCase (trim (email asha_form)) = ''asha@x.com''" by code_simp
  have m: "toLowerCase (trim (email asha_form)) \<in> set (map row_email (local_store world_asha))"
    by code_simp
  from signup_duplicate_email [OF v refl refl refl, of world_asha "''Email ''" "''.''"] v e m
  show ?thesis by blast
qed






text \<open>
  Claim C10, as amended. \<open>Go to Login\<close> clears the email, the password and its
  confirmation, keeps the name and replaces the route by \<open>/login\<close>. \<open>OK\<close> clears the
  email only: it keeps the name, the password and the confirmation, does not navigate,
  and focuses the email input when it is mounted.
\<close>

theorem duplicate_dialog_buttons:
  "name (fst (duplicate_GoToLogin st w)) = name st
   \<and> email (fst (duplicate_GoToLogin st w)) = []
   \<and> password (fst (duplicate_GoToLogin st w)) = []
   \<and> confirmPassword (fst (duplicate_GoToLogin st w)) = []
   \<and> effects (snd (duplicate_GoToLogin st w)) = effects w @ [RouterReplace ''/login'']
   \<and> name (fst (duplicate_OK st w)) = name st
   \<and> email (fst (duplicate_OK st w)) = []
   \<and> password (fst (duplicate_OK st w)) = password st
   \<and> confirmPassword (fst (duplicate_OK st w)) = confirmPassword st
   \<and> effects (snd (duplicate_OK st w)) = effects w @ (if emailInput st then [FocusEmail] else [])"
  by (simp add: duplicate_GoToLogin_def duplicate_OK_def setFocus_email_def Let_def)

text \<open>Both buttons on the filled form of the example.\<close>

theorem duplicate_dialog_buttons_witness:
  "name (fst (duplicate_OK asha_form world0)) = ''Asha Rao''
   \<and> email (fst (duplicate_OK asha_form world0)) = []
   \<and> password (fst (duplicate_OK asha_form world0)) = ''secret1''
   \<and> effects (snd (duplicate_OK asha_form world0)) = [FocusEmail]
   \<and> effects (snd (duplicate_GoToLogin asha_form world0)) = [RouterReplace ''/login'']"
  using duplicate_dialog_buttons [of asha_form world0]
  by (simp add: asha_form_def world0_def)

text \<open>
  Claim C10 as stated fails: after \<open>OK\<close> the password and its confirmation are still
  the ones typed.
\<close>

theorem duplicate_OK_keeps_password:
  "\<not> (password (fst (duplicate_OK asha_form world0)) = []
      \<and> confirmPassword (fst (duplicate_OK asha_form world0)) = [])"
  by (simp add: duplicate_OK_def asha_form_def Let_def)

subsection \<open>The home screen\<close>

lemma intervals_emit [simp]: "intervals (emit e w) = intervals w"
  by (simp add: emit_def)

lemma next_interval_emit [simp]: "next_interval (emit e w) = next_interval w"
  by (simp add: emit_def)

lemma initApp_reaches_sync:
  assumes "initDatabase_ok out" "getItem_ok out" "session_readable w"
  shows "\<exists>st1. initApp out st w =
           (let (r, st2, w2) =
                  start_sync out st1
                    (emit (GetItem ''userSession'')
                       (emit (ConsoleLog ''Database initialized successfully'')
                          (emit InitDatabase w)))
            in (r, st2\<lparr>home_loading := False\<rparr>, w2))"
  using assms
  by (auto simp: initApp_def getItem_def session_readable_def Let_def
           split: option.splits sum.splits if_splits)

lemma start_sync_effects:
  assumes "setupSyncListener_ok out"
  shows "effects (snd (snd (start_sync out st w))) =
           effects w @ [SetupSyncListener, CheckAndSyncData] @
             (if checkAndSyncData_ok out then [SetInterval (next_interval w) 300000]
              else [ConsoleError ''Error initializing app:'',
                    Alert ''Error''
                      ''Failed to initialize the application. Please restart the app.'' []])"
    and "intervals (snd (snd (start_sync out st w))) =
           (if checkAndSyncData_ok out then intervals w @ [(next_interval w, 300000)]
            else intervals w)"
    and "fst (start_sync out st w) =
           (if checkAndSyncData_ok out then Some (ClearSyncInterval (next_interval w)) else None)"
  using assms
  by (simp_all add: start_sync_def init_catch_def setInterval_def Let_def)

lemma initApp_startup:
  assumes "initDatabase_ok out" "getItem_ok out" "session_readable w" "setupSyncListener_ok out"
  shows "effects (snd (snd (initApp out st w))) =
           effects w @ [InitDatabase, ConsoleLog ''Database initialized successfully'',
                        GetItem ''userSession'', SetupSyncListener, CheckAndSyncData] @
             (if checkAndSyncData_ok out then [SetInterval (next_interval w) 300000]
              else [ConsoleError ''Error initializing app:'',
                    Alert ''Error''
                      ''Failed to initialize the application. Please restart the app.'' []])"
    and "intervals (snd (snd (initApp out st w))) =
           (if checkAndSyncData_ok out then intervals w @ [(next_interval w, 300000)]
            else intervals w)"
    and "fst (initApp out st w) =
           (if checkAndSyncData_ok out then Some (ClearSyncInterval (next_interval w)) else None)"
    and "home_loading (fst (snd (initApp out st w))) = False"
proof -
  let ?w3 = "emit (GetItem ''userSession'')
               (emit (ConsoleLog ''Database initialized successfully'') (emit InitDatabase w))"
  obtain st1 where eq: "initApp out st w =
           (let (r, st2, w2) = start_sync out st1 ?w3 in (r, st2\<lparr>home_loading := False\<rparr>, w2))"
    using initApp_reaches_sync[OF assms(1-3)] by blast
  have snd_eq: "snd (snd (initApp out st w)) = snd (snd (start_sync out st1 ?w3))"
    by (simp add: eq split: prod.splits)
  have fst_eq: "fst (initApp out st w) = fst (start_sync out st1 ?w3)"
    by (simp add: eq split: prod.splits)
  show "effects (snd (snd (initApp out st w))) =
           effects w @ [InitDatabase, ConsoleLog ''Database initialized successfully'',
                        GetItem ''userSession'', SetupSyncListener, CheckAndSyncData] @
             (if checkAndSyncData_ok out then [SetInterval (next_interval w) 300000]
              else [ConsoleError ''Error initializing app:'',
                    Alert ''Error''
                      ''Failed to initialize the application. Please restart the app.'' []])"
    by (simp add: snd_eq start_sync_effects(1)[OF assms(4)])
  show "intervals (snd (snd (initApp out st w))) =
           (if checkAndSyncData_ok out then intervals w @ [(next_interval w, 300000)]
            else intervals w)"
    by (simp add: snd_eq start_sync_effects(2)[OF assms(4)])
  show "fst (initApp out st w) =
           (if checkAndSyncData_ok out then Some (ClearSyncInterval (next_interval w)) else None)"
    by (simp add: fst_eq start_sync_effects(3)[OF assms(4)])
  show "home_loading (fst (snd (initApp out st w))) = False"
    by (simp add: eq split: prod.splits)
qed


lemma world_session_readable: "session_readable world_session"
proof -
  have d: "distinct (map fst asha_session)" by (simp add: asha_session_def)
  show ?thesis
    by (simp add: session_readable_def world_session_def JSON_parse_stringify[OF d])
qed

lemma mount_unfold:
  "mount out w = (\<lparr>state = fst (snd (initApp out home_init w)), effect_cleanup = None,
                    mounted = True\<rparr>, snd (snd (initApp out home_init w)))"
  by (simp add: mount_def home_effect_def split: prod.splits)







text \<open>
  When the pass started by the interval throws, nothing catches it: the callback has
  no handler and logs nothing itself.
\<close>

lemma interval_callback_failure:
  "effects (interval_callback False w) = effects w @ [CheckAndSyncData, UnhandledRejection]"
  by (simp add: interval_callback_def)

text \<open>
  The effect returns nothing, whatever \<open>initApp\<close> resolves to, so unmounting leaves
  the world as it is.
\<close>

lemma mount_keeps_no_cleanup: "effect_cleanup (fst (mount out w)) = None"
  by (simp add: mount_unfold)

lemma unmount_clears_nothing: "snd (unmount (fst (mount out w)) w') = w'"
  by (simp add: unmount_def mount_keeps_no_cleanup)

text \<open>
  Claim C2 fails on the code. After a startup where every call succeeds, \<open>initApp\<close> has
  resolved to the function that clears interval 0, but the effect has handed React no
  cleanup: after the unmount the interval is still running, and when it fires it calls
  \<open>checkAndSyncData\<close>.
\<close>

theorem interval_survives_unmount:
  "fst (initApp all_ok home_init world_session) = Some (ClearSyncInterval 0)
   \<and> effect_cleanup (fst (mount all_ok world_session)) = None
   \<and> \<not> mounted (fst (unmount (fst (mount all_ok world_session)) (snd (mount all_ok world_session))))
   \<and> intervals (snd (unmount (fst (mount all_ok world_session)) (snd (mount all_ok world_session))))
       = [(0, 300000)]
   \<and> effects (interval_fires 0 True
        (snd (unmount (fst (mount all_ok world_session)) (snd (mount all_ok world_session)))))
       = effects (snd (mount all_ok world_session)) @ [CheckAndSyncData]"
proof -
  have f: "initDatabase_ok all_ok" "getItem_ok all_ok" "setupSyncListener_ok all_ok"
    "checkAndSyncData_ok all_ok"
    by (simp_all add: all_ok_def)
  have i: "intervals world_session = []" "next_interval world_session = 0"
    by (simp_all add: world_session_def world_asha_def world0_def)
  note s = initApp_startup[OF f(1) f(2) world_session_readable f(3), of home_init]
  have iv: "intervals (snd (mount all_ok world_session)) = [(0, 300000)]"
    using f(4) i by (simp add: mount_unfold s(2))
  have a: "fst (initApp all_ok home_init world_session) = Some (ClearSyncInterval 0)"
    using f(4) i by (simp add: s(3))
  have b: "\<not> mounted (fst (unmount (fst (mount all_ok world_session)) (snd (mount all_ok world_session))))"
    by (simp add: unmount_def)
  have c: "effects (interval_fires 0 True (snd (mount all_ok world_session)))
       = effects (snd (mount all_ok world_session)) @ [CheckAndSyncData]"
    by (simp add: interval_fires_def interval_callback_def iv)
  from a b c iv show ?thesis
    by (simp add: unmount_clears_nothing mount_keeps_no_cleanup)
qed

subsection \<open>The profile screen\<close>


lemma handleSaveProfile_fails:
  assumes "editedName st = Some n" "truthy (trim n)"
  shows "handleSaveProfile False st w =
           (st\<lparr>saving := False\<rparr>,
            emit (Alert ''Error'' ''Failed to update profile. Please try again.'' [])
              (emit (ConsoleError ''Error saving profile:'')
                 (emit (SetItem ''userSession''
                          (JSON_stringify (set_prop ''name'' (trim n)
                             (case userData st of None \<Rightarrow> [] | Some u \<Rightarrow> u)))) w)))"
  using assms by (simp add: handleSaveProfile_def setItem_def Let_def)








lemma logout_dialog_Logout:
  "logout_dialog Logout ok w =
     (if ok
      then emit (RouterReplace ''/'')
             (emit (RemoveItem ''userSession'')
                ((emit (Alert ''Logout'' ''Are you sure you want to logout?'' [''Cancel'', ''Logout'']) w)
                   \<lparr>storage := (storage w)(''userSession'' := None)\<rparr>))
      else emit (Alert ''Error'' ''Failed to logout. Please try again.'' [])
             (emit (ConsoleError ''Logout error:'')
                (emit (RemoveItem ''userSession'')
                   (emit (Alert ''Logout'' ''Are you sure you want to logout?'' [''Cancel'', ''Logout''])
                      w))))"
  by (simp add: logout_dialog_def logout_onPress_def handleLogout_def removeItem_def)

lemma home_logout_dialog_Logout:
  "home_logout_dialog Logout ok st w =
     (if ok
      then (st\<lparr>isLoggedIn := Some False, userName := Some []\<rparr>,
            emit (Alert ''Success'' ''You have been logged out successfully.'' [])
             (emit (RemoveItem ''userSession'')
                ((emit (Alert ''Logout'' ''Are you sure you want to logout?'' [''Cancel'', ''Logout'']) w)
                   \<lparr>storage := (storage w)(''userSession'' := None)\<rparr>)))
      else (st, emit (Alert ''Error'' ''Failed to logout. Please try again.'' [])
             (emit (ConsoleError ''Logout error:'')
                (emit (RemoveItem ''userSession'')
                   (emit (Alert ''Logout'' ''Are you sure you want to logout?'' [''Cancel'', ''Logout''])
                      w)))))"
  by (simp add: home_logout_dialog_def home_logout_onPress_def home_handleLogout_def removeItem_def)

text \<open>
  Claim C7. Pressing \<open>Logout\<close> in the dialog of either screen, with a removal that
  completes, removes the key \<open>userSession\<close> and makes no other storage or database
  call. Whatever button is pressed and whether or not the removal completes, the Local
  Store and every other storage key are unchanged.
\<close>

theorem logout_frame:
  "storage (logout_dialog Logout True w) = (storage w)(''userSession'' := None)
   \<and> effects (logout_dialog Logout True w) =
       effects w @ [Alert ''Logout'' ''Are you sure you want to logout?'' [''Cancel'', ''Logout''],
                    RemoveItem ''userSession'', RouterReplace ''/'']
   \<and> local_store (logout_dialog b ok w) = local_store w
   \<and> (\<forall>k. k \<noteq> ''userSession'' \<longrightarrow> storage (logout_dialog b ok w) k = storage w k)
   \<and> storage (snd (home_logout_dialog Logout True hs w)) = (storage w)(''userSession'' := None)
   \<and> effects (snd (home_logout_dialog Logout True hs w)) =
       effects w @ [Alert ''Logout'' ''Are you sure you want to logout?'' [''Cancel'', ''Logout''],
                    RemoveItem ''userSession'',
                    Alert ''Success'' ''You have been logged out successfully.'' []]
   \<and> local_store (snd (home_logout_dialog b ok hs w)) = local_store w
   \<and> (\<forall>k. k \<noteq> ''userSession'' \<longrightarrow>
          storage (snd (home_logout_dialog b ok hs w)) k = storage w k)"
proof -
  have c: "logout_dialog Cancel ok w = handleLogout w"
    "home_logout_dialog Cancel ok hs w = (hs, home_handleLogout w)"
    by (simp_all add: logout_dialog_def home_logout_dialog_def)
  have a: "storage (logout_dialog Logout True w) = (storage w)(''userSession'' := None)"
    by (simp add: logout_dialog_Logout)
  have a': "effects (logout_dialog Logout True w) =
       effects w @ [Alert ''Logout'' ''Are you sure you want to logout?'' [''Cancel'', ''Logout''],
                    RemoveItem ''userSession'', RouterReplace ''/'']"
    by (simp add: logout_dialog_Logout)
  have b1: "local_store (logout_dialog b ok w) = local_store w"
    by (cases b) (simp_all add: logout_dialog_Logout c handleLogout_def)
  have b2: "k \<noteq> ''userSession'' \<Longrightarrow> storage (logout_dialog b ok w) k = storage w k" for k
    by (cases b) (simp_all add: logout_dialog_Logout c handleLogout_def)
  have h: "storage (snd (home_logout_dialog Logout True hs w)) = (storage w)(''userSession'' := None)"
    by (simp add: home_logout_dialog_Logout)
  have h': "effects (snd (home_logout_dialog Logout True hs w)) =
       effects w @ [Alert ''Logout'' ''Are you sure you want to logout?'' [''Cancel'', ''Logout''],
                    RemoveItem ''userSession'',
                    Alert ''Success'' ''You have been logged out successfully.'' []]"
    by (simp add: home_logout_dialog_Logout)
  have h1: "local_store (snd (home_logout_dialog b ok hs w)) = local_store w"
    by (cases b) (simp_all add: home_logout_dialog_Logout c home_handleLogout_def)
  have h2: "k \<noteq> ''userSession'' \<Longrightarrow>
          storage (snd (home_logout_dialog b ok hs w)) k = storage w k" for k
    by (cases b) (simp_all add: home_logout_dialog_Logout c home_handleLogout_def)
  from a a' b1 b2 h h' h1 h2 show ?thesis by blast
qed

text \<open>A logout in a world with a user row and a second key.\<close>

theorem logout_frame_witness:
  "''theme'' \<noteq> ''userSession''
   \<and> storage world_two_keys ''userSession'' = Some (JSON_stringify asha_session)
   \<and> storage (logout_dialog Logout True world_two_keys) ''userSession'' = None
   \<and> storage (logout_dialog Logout True world_two_keys) ''theme'' = Some ''dark''
   \<and> local_store (logout_dialog Logout True world_two_keys) = local_store world_asha
   \<and> storage (snd (home_logout_dialog Logout True home_init world_two_keys)) ''theme''
       = Some ''dark''"
proof -
  have k: "''theme'' \<noteq> ''userSession''" by simp
  have s: "storage world_two_keys ''userSession'' = Some (JSON_stringify asha_session)"
    "storage world_two_keys ''theme'' = Some ''dark''"
    "local_store world_two_keys = local_store world_asha"
    by (simp_all add: world_two_keys_def world_session_def)
  from logout_frame[of world_two_keys Logout True home_init] k s
  show ?thesis by simp
qed

text \<open>
  Claim C8. When the write of a profile save rejects, the handler makes no other
  storage call: the storage, the Local Store and the snapshot held by the screen are
  what they were. When the removal of a logout rejects, on either screen, the storage
  is what it was, and the home screen's state is unchanged.
\<close>

theorem failed_write_keeps_state:
  assumes "editedName st = Some n" "trim n \<noteq> []"
  shows "storage (snd (handleSaveProfile False st w)) = storage w
       \<and> userData (fst (handleSaveProfile False st w)) = userData st
       \<and> isEditing (fst (handleSaveProfile False st w)) = isEditing st
       \<and> local_store (snd (handleSaveProfile False st w)) = local_store w
       \<and> effects (snd (handleSaveProfile False st w)) =
           effects w @ [SetItem ''userSession''
                          (JSON_stringify (set_prop ''name'' (trim n)
                             (case userData st of None \<Rightarrow> [] | Some u \<Rightarrow> u))),
                        ConsoleError ''Error saving profile:'',
                        Alert ''Error'' ''Failed to update profile. Please try again.'' []]
       \<and> storage (logout_dialog Logout False w) = storage w
       \<and> effects (logout_dialog Logout False w) =
           effects w @ [Alert ''Logout'' ''Are you sure you want to logout?'' [''Cancel'', ''Logout''],
                        RemoveItem ''userSession'', ConsoleError ''Logout error:'',
                        Alert ''Error'' ''Failed to logout. Please try again.'' []]
       \<and> storage (snd (home_logout_dialog Logout False hs w)) = storage w
       \<and> fst (home_logout_dialog Logout False hs w) = hs"
proof -
  have t: "truthy (trim n)" using assms(2) by (simp add: truthy_def)
  note f = handleSaveProfile_fails[OF assms(1) t, of w]
  have a: "storage (snd (handleSaveProfile False st w)) = storage w"
    "userData (fst (handleSaveProfile False st w)) = userData st"
    "isEditing (fst (handleSaveProfile False st w)) = isEditing st"
    "local_store (snd (handleSaveProfile False st w)) = local_store w"
    by (simp_all add: f)
  have b: "effects (snd (handleSaveProfile False st w)) =
           effects w @ [SetItem ''userSession''
                          (JSON_stringify (set_prop ''name'' (trim n)
                             (case userData st of None \<Rightarrow> [] | Some u \<Rightarrow> u))),
                        ConsoleError ''Error saving profile:'',
                        Alert ''Error'' ''Failed to update profile. Please try again.'' []]"
    by (simp add: f)
  have c: "storage (logout_dialog Logout False w) = storage w"
    "effects (logout_dialog Logout False w) =
           effects w @ [Alert ''Logout'' ''Are you sure you want to logout?'' [''Cancel'', ''Logout''],
                        RemoveItem ''userSession'', ConsoleError ''Logout error:'',
                        Alert ''Error'' ''Failed to logout. Please try again.'' []]"
    by (simp_all add: logout_dialog_Logout)
  have d: "storage (snd (home_logout_dialog Logout False hs w)) = storage w"
    "fst (home_logout_dialog Logout False hs w) = hs"
    by (simp_all add: home_logout_dialog_Logout)
  from a b c d show ?thesis by blast
qed

text \<open>A save and a logout that reject, on the stored session of the example.\<close>

theorem failed_write_keeps_state_witness:
  "editedName asha_profile = Some ''  Asha R.  '' \<and> trim ''  Asha R.  '' \<noteq> []
   \<and> storage (snd (handleSaveProfile False asha_profile world_session)) ''userSession''
       = Some (JSON_stringify asha_session)
   \<and> userData (fst (handleSaveProfile False asha_profile world_session)) = Some asha_session
   \<and> storage (logout_dialog Logout False world_session) ''userSession''
       = Some (JSON_stringify asha_session)"
proof -
  have e: "editedName asha_profile = Some ''  Asha R.  ''"
    and u: "userData asha_profile = Some asha_session"
    by (simp_all add: asha_profile_def)
  have t: "trim ''  Asha R.  '' \<noteq> []" by code_simp
  have s: "storage world_session ''userSession'' = Some (JSON_stringify asha_session)"
    by (simp add: world_session_def)
  from failed_write_keeps_state[OF e t, of world_session] e t u s
  show ?thesis by simp
qed

end
